theory Spec2Isabelle
  imports Complex_Main
begin

section \<open>The PagerView container of react-native-pager-view\<close>

text \<open>
  The development embeds the class \<^verbatim>\<open>PagerView\<close> of \<^verbatim>\<open>src/PagerView.tsx\<close>.
  An instance is a record of its fields; every method takes the instance (named
  \<open>this\<close>, as in the source) and returns the list of calls it makes out of the
  file, in the order it makes them, together with the instance as the method leaves it.

  The calls out of the file are the values of the type \<open>effect\<close>: the user's three
  callbacks, \<^verbatim>\<open>Keyboard.dismiss\<close>, the three native commands, \<^verbatim>\<open>createPagerStore\<close>
  and the store's \<^verbatim>\<open>setState\<close>.

  A callback of the user is a function of the event that either returns or throws.
  The source calls it with no \<^verbatim>\<open>try\<close> around the call, so an exception of the
  callback leaves the event handler at once: the result of a handler says which
  exception, if any, left it. A callback does not touch the fields of the instance.
\<close>

subsection \<open>Event payloads and property values\<close>

text \<open>
  The payload types are declared in \<^verbatim>\<open>PagerViewNativeComponent\<close>; their fields
  are the ones the native view contract lists: \<^verbatim>\<open>onPageScroll{position, offset}\<close>,
  \<^verbatim>\<open>onPageScrollStateChanged{pageScrollState}\<close>, \<^verbatim>\<open>onPageSelected{position}\<close>.
  The offset is a floating-point number that the container never inspects.
\<close>

record OnPageScrollEventData =
  position :: int
  offset :: real

text \<open>The union \<^verbatim>\<open>'idle' | 'settling' | 'dragging'\<close>.\<close>

datatype PageScrollState = Idle | Settling | Dragging

record OnPageScrollStateChangedEventData =
  pageScrollState :: PageScrollState

record OnPageSelectedEventData =
  position :: int

text \<open>
  \<^verbatim>\<open>NativeSyntheticEvent<T>\<close>: the payload is the field \<^verbatim>\<open>nativeEvent\<close>; whatever
  else the event carries is the extension part of the record.
\<close>

record 'a NativeSyntheticEvent =
  nativeEvent :: 'a

text \<open>The union \<^verbatim>\<open>'ltr' | 'rtl' | 'locale'\<close> of the layout direction.\<close>

datatype LayoutDirection = LD_ltr | LD_rtl | LD_locale

text \<open>The union \<^verbatim>\<open>'none' | 'on-drag'\<close> of the keyboard dismiss mode.\<close>

datatype KeyboardDismissMode = KD_none | KD_on_drag

text \<open>The values of \<^verbatim>\<open>Platform.OS\<close>.\<close>

datatype PlatformOS = OS_ios | OS_android | OS_macos | OS_windows | OS_web

text \<open>
  What the methods read of React Native: \<^verbatim>\<open>Platform.OS\<close> and
  \<^verbatim>\<open>I18nManager.isRTL\<close>.
\<close>

record Env =
  Platform_OS :: PlatformOS
  I18nManager_isRTL :: bool

text \<open>
  A callback of the user, called with an event of payload \<open>'e\<close>: \<open>None\<close> when the
  call returns, \<open>Some x\<close> when it throws \<open>x\<close>.
\<close>

type_synonym ('e, 'x) callback = "'e NativeSyntheticEvent \<Rightarrow> 'x option"

text \<open>
  The properties the class reads. An optional property is an \<open>option\<close>; \<open>'x\<close> is
  the type of the values the user's callbacks throw and \<open>'c\<close> the type of a child
  node. The properties that are passed through to the native view unread are the
  extension part of the record. A property has a value of its declared type, so the
  truth tests of the source (\<^verbatim>\<open>if (this.props.onPageScroll)\<close>,
  \<^verbatim>\<open>!this.props.layoutDirection\<close>) fail exactly on the absent property.
\<close>

record ('x, 'c) PagerViewProps =
  initialPage :: "int option"
  layoutDirection :: "LayoutDirection option"
  keyboardDismissMode :: "KeyboardDismissMode option"
  onPageScroll :: "(OnPageScrollEventData, 'x) callback option"
  onPageScrollStateChanged :: "(OnPageScrollStateChangedEventData, 'x) callback option"
  onPageSelected :: "(OnPageSelectedEventData, 'x) callback option"
  children :: "'c list"

text \<open>
  \<^verbatim>\<open>React.Children.count\<close>: the children are given as the flat list of the nodes
  that React counts.
\<close>

definition Children_count :: "'c list \<Rightarrow> nat" where
  "Children_count cs = length cs"

subsection \<open>The page-state store\<close>

text \<open>
  Modelled from the spec: the type \<^verbatim>\<open>PagerViewState\<close> of
  \<^verbatim>\<open>PagerViewNativeComponent\<close> is not among the sources. The spec's
  PageSyncState has the fields page, hasNextPage and hasPreviousPage.
\<close>

record PagerViewState =
  page :: int
  hasNextPage :: bool
  hasPreviousPage :: bool

text \<open>
  Modelled from the spec: a partial update, the argument of \<^verbatim>\<open>setState\<close>. A field
  that the update does not mention is \<open>None\<close>.
\<close>

record PagerViewState_partial =
  upd_page :: "int option"
  upd_hasNextPage :: "bool option"
  upd_hasPreviousPage :: "bool option"

text \<open>
  Modelled from the spec: the store of \<^verbatim>\<open>usePager\<close>, which is not among the
  sources. It owns one snapshot of the state. Its subscriber set and the
  notification round of \<^verbatim>\<open>setState\<close> are no part of this development.
\<close>

record PagerStore =
  state :: PagerViewState

text \<open>
  Modelled from the spec: \<^verbatim>\<open>createPagerStore\<close> of \<^verbatim>\<open>usePager\<close>. The store is
  seeded with the initial page, \<open>hasPreviousPage = initialPage > 0\<close>, and
  \<open>hasNextPage\<close> optimistically true.
\<close>

definition createPagerStore :: "int \<Rightarrow> PagerStore" where
  "createPagerStore initial =
     \<lparr>state = \<lparr>page = initial, hasNextPage = True, hasPreviousPage = (initial > 0)\<rparr>\<rparr>"

text \<open>Modelled from the spec: \<^verbatim>\<open>getState\<close> returns the current snapshot.\<close>

definition getState :: "PagerStore \<Rightarrow> PagerViewState" where
  "getState s = state s"

text \<open>
  Modelled from the spec: \<^verbatim>\<open>setState\<close> merges the partial update into the current
  state; a field of the update overrides the field of the state.
\<close>

definition setState :: "PagerViewState_partial \<Rightarrow> PagerStore \<Rightarrow> PagerStore" where
  "setState u s =
     s\<lparr>state :=
         \<lparr>page = (case upd_page u of Some v \<Rightarrow> v | None \<Rightarrow> page (state s)),
          hasNextPage =
            (case upd_hasNextPage u of Some v \<Rightarrow> v | None \<Rightarrow> hasNextPage (state s)),
          hasPreviousPage =
            (case upd_hasPreviousPage u of Some v \<Rightarrow> v
             | None \<Rightarrow> hasPreviousPage (state s))\<rparr>\<rparr>"

subsection \<open>The calls out of the file\<close>

text \<open>\<open>'h\<close> is the type of the native view handle.\<close>

datatype 'h effect =
    Call_onPageScroll "OnPageScrollEventData NativeSyntheticEvent"
  | Call_onPageScrollStateChanged "OnPageScrollStateChangedEventData NativeSyntheticEvent"
  | Call_onPageSelected "OnPageSelectedEventData NativeSyntheticEvent"
  | Keyboard_dismiss
  | Commands_setPage 'h int
  | Commands_setPageWithoutAnimation 'h int
  | Commands_setScrollEnabledImperatively 'h bool
  | Call_createPagerStore int
  | Store_setState PagerViewState_partial

text \<open>
  The statement \<^verbatim>\<open>if (cb) { cb(e); }\<close> that opens each event handler: the call
  it makes, if the callback is provided, and the exception that the call throws, if
  it throws. The third argument names the call.
\<close>

definition call_if_provided ::
  "('e, 'x) callback option \<Rightarrow> 'e NativeSyntheticEvent \<Rightarrow>
   ('e NativeSyntheticEvent \<Rightarrow> 'h effect) \<Rightarrow> 'h effect list \<times> 'x option" where
  "call_if_provided cb e call =
     (case cb of
        Some f \<Rightarrow> ([call e], f e)
      | None \<Rightarrow> ([], None))"

subsection \<open>The class\<close>

text \<open>
  The fields of an instance: \<^verbatim>\<open>this.props\<close>, and the three fields the class
  declares with their initial values \<^verbatim>\<open>isScrolling = false\<close>,
  \<^verbatim>\<open>pagerView = null\<close>, \<^verbatim>\<open>store = null\<close>.
\<close>

record ('x, 'c, 'h) PagerView =
  props :: "('x, 'c) PagerViewProps"
  isScrolling :: bool
  pagerView :: "'h option"
  store :: "PagerStore option"

text \<open>
  What an event handler has done when control leaves it: the calls it made, the
  instance as it leaves it, and the exception that left it (\<open>None\<close> when the
  handler returns).
\<close>

record ('x, 'c, 'h) handled =
  calls :: "'h effect list"
  self :: "('x, 'c, 'h) PagerView"
  thrown :: "'x option"

text \<open>
  The constructor: the field initialisers, then
  \<^verbatim>\<open>this.store = createPagerStore(props.initialPage ?? 0)\<close>.
\<close>

definition PagerView_constructor ::
  "('x, 'c) PagerViewProps \<Rightarrow> 'h effect list \<times> ('x, 'c, 'h) PagerView" where
  "PagerView_constructor p =
     (let initial = (case initialPage p of Some i \<Rightarrow> i | None \<Rightarrow> 0) in
      ([Call_createPagerStore initial],
       \<lparr>props = p, isScrolling = False, pagerView = None,
        store = Some (createPagerStore initial)\<rparr>))"

text \<open>
  \<^verbatim>\<open>_onPageScroll\<close>. When the callback throws, the keyboard statement is not
  reached.
\<close>

definition PagerView_onPageScroll ::
  "Env \<Rightarrow> ('x, 'c, 'h) PagerView \<Rightarrow> OnPageScrollEventData NativeSyntheticEvent \<Rightarrow>
   ('x, 'c, 'h) handled" where
  "PagerView_onPageScroll env this e =
     (case call_if_provided (onPageScroll (props this)) e Call_onPageScroll of
        (forwarded, Some x) \<Rightarrow> \<lparr>calls = forwarded, self = this, thrown = Some x\<rparr>
      | (forwarded, None) \<Rightarrow>
          \<lparr>calls =
             forwarded @
             (if Platform_OS env = OS_android then
                (if keyboardDismissMode (props this) = Some KD_on_drag then [Keyboard_dismiss]
                 else [])
              else []),
           self = this, thrown = None\<rparr>)"

text \<open>
  \<^verbatim>\<open>_onPageScrollStateChanged\<close>. When the callback throws, the assignment to
  \<^verbatim>\<open>this.isScrolling\<close> is not reached.
\<close>

definition PagerView_onPageScrollStateChanged ::
  "('x, 'c, 'h) PagerView \<Rightarrow> OnPageScrollStateChangedEventData NativeSyntheticEvent \<Rightarrow>
   ('x, 'c, 'h) handled" where
  "PagerView_onPageScrollStateChanged this e =
     (case call_if_provided (onPageScrollStateChanged (props this)) e
             Call_onPageScrollStateChanged of
        (forwarded, Some x) \<Rightarrow> \<lparr>calls = forwarded, self = this, thrown = Some x\<rparr>
      | (forwarded, None) \<Rightarrow>
          \<lparr>calls = forwarded,
           self = this\<lparr>isScrolling := (pageScrollState (nativeEvent e) = Dragging)\<rparr>,
           thrown = None\<rparr>)"

text \<open>
  The argument \<^verbatim>\<open>_onPageSelected\<close> gives to \<^verbatim>\<open>setState\<close>. The subtraction is
  on integers: with no child the bound is \<open>-1\<close>.
\<close>

definition selected_update ::
  "('x, 'c, 'h) PagerView \<Rightarrow> OnPageSelectedEventData NativeSyntheticEvent \<Rightarrow>
   PagerViewState_partial" where
  "selected_update this e =
     \<lparr>upd_page = Some (position (nativeEvent e)),
      upd_hasNextPage =
        Some (position (nativeEvent e) < int (Children_count (children (props this))) - 1),
      upd_hasPreviousPage = Some (position (nativeEvent e) > 0)\<rparr>"

text \<open>
  \<^verbatim>\<open>_onPageSelected\<close>. When the callback throws, the store statement is not
  reached. The call \<^verbatim>\<open>this.store?.setState(...)\<close> is skipped when the store is
  null.
\<close>

definition PagerView_onPageSelected ::
  "('x, 'c, 'h) PagerView \<Rightarrow> OnPageSelectedEventData NativeSyntheticEvent \<Rightarrow>
   ('x, 'c, 'h) handled" where
  "PagerView_onPageSelected this e =
     (case call_if_provided (onPageSelected (props this)) e Call_onPageSelected of
        (forwarded, Some x) \<Rightarrow> \<lparr>calls = forwarded, self = this, thrown = Some x\<rparr>
      | (forwarded, None) \<Rightarrow>
          (case store this of
             None \<Rightarrow> \<lparr>calls = forwarded, self = this, thrown = None\<rparr>
           | Some s \<Rightarrow>
               \<lparr>calls = forwarded @ [Store_setState (selected_update this e)],
                self = this\<lparr>store := Some (setState (selected_update this e) s)\<rparr>,
                thrown = None\<rparr>))"

text \<open>\<^verbatim>\<open>setPage\<close>.\<close>

definition PagerView_setPage ::
  "('x, 'c, 'h) PagerView \<Rightarrow> int \<Rightarrow> 'h effect list \<times> ('x, 'c, 'h) PagerView" where
  "PagerView_setPage this selectedPage =
     (case pagerView this of
        Some h \<Rightarrow> ([Commands_setPage h selectedPage], this)
      | None \<Rightarrow> ([], this))"

text \<open>\<^verbatim>\<open>setPageWithoutAnimation\<close>.\<close>

definition PagerView_setPageWithoutAnimation ::
  "('x, 'c, 'h) PagerView \<Rightarrow> int \<Rightarrow> 'h effect list \<times> ('x, 'c, 'h) PagerView" where
  "PagerView_setPageWithoutAnimation this selectedPage =
     (case pagerView this of
        Some h \<Rightarrow> ([Commands_setPageWithoutAnimation h selectedPage], this)
      | None \<Rightarrow> ([], this))"

text \<open>\<^verbatim>\<open>setScrollEnabled\<close>.\<close>

definition PagerView_setScrollEnabled ::
  "('x, 'c, 'h) PagerView \<Rightarrow> bool \<Rightarrow> 'h effect list \<times> ('x, 'c, 'h) PagerView" where
  "PagerView_setScrollEnabled this scrollEnabled =
     (case pagerView this of
        Some h \<Rightarrow> ([Commands_setScrollEnabledImperatively h scrollEnabled], this)
      | None \<Rightarrow> ([], this))"

text \<open>\<^verbatim>\<open>_onMoveShouldSetResponderCapture\<close>.\<close>

definition PagerView_onMoveShouldSetResponderCapture :: "('x, 'c, 'h) PagerView \<Rightarrow> bool" where
  "PagerView_onMoveShouldSetResponderCapture this = isScrolling this"

text \<open>The getter \<^verbatim>\<open>deducedLayoutDirection\<close>.\<close>

definition PagerView_deducedLayoutDirection ::
  "Env \<Rightarrow> ('x, 'c, 'h) PagerView \<Rightarrow> LayoutDirection" where
  "PagerView_deducedLayoutDirection env this =
     (case layoutDirection (props this) of
        None \<Rightarrow> (if I18nManager_isRTL env then LD_rtl else LD_ltr)
      | Some d \<Rightarrow>
          (if d = LD_locale then (if I18nManager_isRTL env then LD_rtl else LD_ltr)
           else d))"

text \<open>
  \<^verbatim>\<open>render\<close>, as far as this development reads its result: the store published in
  the context value and the \<^verbatim>\<open>layoutDirection\<close> attribute given to the native view.
\<close>

record Rendered =
  context_store :: "PagerStore option"
  native_layoutDirection :: LayoutDirection

definition PagerView_render :: "Env \<Rightarrow> ('x, 'c, 'h) PagerView \<Rightarrow> Rendered" where
  "PagerView_render env this =
     \<lparr>context_store = store this,
      native_layoutDirection = PagerView_deducedLayoutDirection env this\<rparr>"

text \<open>The ref callback of \<^verbatim>\<open>render\<close>: \<^verbatim>\<open>this.pagerView = ref\<close>.\<close>

definition PagerView_ref ::
  "('x, 'c, 'h) PagerView \<Rightarrow> 'h option \<Rightarrow> 'h effect list \<times> ('x, 'c, 'h) PagerView" where
  "PagerView_ref this r = ([], this\<lparr>pagerView := r\<rparr>)"

subsection \<open>The lifetime of a container\<close>

text \<open>
  What happens to an instance after its construction: the native view delivers one
  of its three events, a caller invokes one of the three imperative operations,
  React runs the ref callback (with the handle at mount, with null at unmount), or
  React replaces \<^verbatim>\<open>this.props\<close>. An exception that leaves an event handler goes to
  whoever delivered the event; the instance stays as the handler left it and lives
  on.
\<close>

datatype ('x, 'c, 'h) action =
    PageScroll "OnPageScrollEventData NativeSyntheticEvent"
  | PageScrollStateChanged "OnPageScrollStateChangedEventData NativeSyntheticEvent"
  | PageSelected "OnPageSelectedEventData NativeSyntheticEvent"
  | SetPage int
  | SetPageWithoutAnimation int
  | SetScrollEnabled bool
  | Ref "'h option"
  | NewProps "('x, 'c) PagerViewProps"

fun PagerView_step ::
  "Env \<Rightarrow> ('x, 'c, 'h) PagerView \<Rightarrow> ('x, 'c, 'h) action \<Rightarrow>
   'h effect list \<times> ('x, 'c, 'h) PagerView" where
  "PagerView_step env this (PageScroll e) =
     (calls (PagerView_onPageScroll env this e), self (PagerView_onPageScroll env this e))"
| "PagerView_step env this (PageScrollStateChanged e) =
     (calls (PagerView_onPageScrollStateChanged this e),
      self (PagerView_onPageScrollStateChanged this e))"
| "PagerView_step env this (PageSelected e) =
     (calls (PagerView_onPageSelected this e), self (PagerView_onPageSelected this e))"
| "PagerView_step env this (SetPage i) = PagerView_setPage this i"
| "PagerView_step env this (SetPageWithoutAnimation i) = PagerView_setPageWithoutAnimation this i"
| "PagerView_step env this (SetScrollEnabled b) = PagerView_setScrollEnabled this b"
| "PagerView_step env this (Ref r) = PagerView_ref this r"
| "PagerView_step env this (NewProps p) = ([], this\<lparr>props := p\<rparr>)"

text \<open>A sequence of actions, with the calls it makes in order.\<close>

fun PagerView_run ::
  "Env \<Rightarrow> ('x, 'c, 'h) PagerView \<Rightarrow> ('x, 'c, 'h) action list \<Rightarrow>
   'h effect list \<times> ('x, 'c, 'h) PagerView" where
  "PagerView_run env this [] = ([], this)"
| "PagerView_run env this (a # as) =
     (case PagerView_step env this a of
        (t1, this1) \<Rightarrow>
          (case PagerView_run env this1 as of (t2, this2) \<Rightarrow> (t1 @ t2, this2)))"

text \<open>A container from its construction on.\<close>

definition PagerView_lifetime ::
  "Env \<Rightarrow> ('x, 'c) PagerViewProps \<Rightarrow> ('x, 'c, 'h) action list \<Rightarrow>
   'h effect list \<times> ('x, 'c, 'h) PagerView" where
  "PagerView_lifetime env p as =
     (case PagerView_constructor p of
        (t0, this0) \<Rightarrow>
          (case PagerView_run env this0 as of (t, this) \<Rightarrow> (t0 @ t, this)))"

text \<open>The calls of a trace that create a store, and those that update one.\<close>

fun is_createPagerStore :: "'h effect \<Rightarrow> bool" where
  "is_createPagerStore (Call_createPagerStore n) = True"
| "is_createPagerStore x = False"

fun is_setState :: "'h effect \<Rightarrow> bool" where
  "is_setState (Store_setState u) = True"
| "is_setState x = False"

text \<open>
  The scroll state that the flag \<^verbatim>\<open>isScrolling\<close> follows: starting with the
  properties \<open>p\<close>, the state of the latest \<^verbatim>\<open>onPageScrollStateChanged\<close> event of
  a sequence of actions whose handler returned, that is, whose callback (the one of
  the properties in force when the event arrived) did not throw. \<open>None\<close> when there
  is no such event.
\<close>

fun latest_scroll_state ::
  "('x, 'c) PagerViewProps \<Rightarrow> ('x, 'c, 'h) action list \<Rightarrow> PageScrollState option" where
  "latest_scroll_state p [] = None"
| "latest_scroll_state p (a # as) =
     (case latest_scroll_state (case a of NewProps p' \<Rightarrow> p' | _ \<Rightarrow> p) as of
        Some q \<Rightarrow> Some q
      | None \<Rightarrow>
          (case a of
             PageScrollStateChanged e \<Rightarrow>
               (case onPageScrollStateChanged p of
                  None \<Rightarrow> Some (pageScrollState (nativeEvent e))
                | Some f \<Rightarrow>
                    (case f e of
                       None \<Rightarrow> Some (pageScrollState (nativeEvent e))
                     | Some x \<Rightarrow> None))
           | _ \<Rightarrow> None))"

subsection \<open>Concrete callbacks, events and containers\<close>

text \<open>
  A callback that returns, one that throws, and one that throws on every scroll
  state but \<^verbatim>\<open>'dragging'\<close>.
\<close>

definition returning :: "('e, string) callback" where
  "returning e = None"

definition throwing :: "('e, string) callback" where
  "throwing e = Some ''Error''"

definition throwing_unless_dragging :: "(OnPageScrollStateChangedEventData, string) callback" where
  "throwing_unless_dragging e =
     (if pageScrollState (nativeEvent e) = Dragging then None else Some ''Error'')"

text \<open>
  An Android device with a left-to-right locale; a pager of five children with all
  three callbacks, which return, and which dismisses the keyboard on drag; and the
  container of these properties once the ref callback has delivered the handle \<open>1\<close>.
\<close>

definition example_env :: Env where
  "example_env = \<lparr>Platform_OS = OS_android, I18nManager_isRTL = False\<rparr>"

definition example_props :: "(string, nat) PagerViewProps" where
  "example_props =
     \<lparr>initialPage = None, layoutDirection = None, keyboardDismissMode = Some KD_on_drag,
      onPageScroll = Some returning, onPageScrollStateChanged = Some returning,
      onPageSelected = Some returning, children = [0, 1, 2, 3, 4]\<rparr>"

definition example_mounted :: "(string, nat, nat) PagerView" where
  "example_mounted = snd (PagerView_lifetime example_env example_props [Ref (Some 1)])"

text \<open>A scroll event, and two changes of the scroll state.\<close>

definition example_scroll :: "OnPageScrollEventData NativeSyntheticEvent" where
  "example_scroll = \<lparr>nativeEvent = \<lparr>OnPageScrollEventData.position = 1, offset = 1 / 2\<rparr>\<rparr>"

definition example_dragging :: "OnPageScrollStateChangedEventData NativeSyntheticEvent" where
  "example_dragging = \<lparr>nativeEvent = \<lparr>pageScrollState = Dragging\<rparr>\<rparr>"

definition example_idle :: "OnPageScrollStateChangedEventData NativeSyntheticEvent" where
  "example_idle = \<lparr>nativeEvent = \<lparr>pageScrollState = Idle\<rparr>\<rparr>"

text \<open>The same pager and container with callbacks that throw.\<close>

definition example_props_throwing :: "(string, nat) PagerViewProps" where
  "example_props_throwing =
     example_props
       \<lparr>onPageScroll := Some throwing, onPageScrollStateChanged := Some throwing,
        onPageSelected := Some throwing\<rparr>"

definition example_mounted_throwing :: "(string, nat, nat) PagerView" where
  "example_mounted_throwing =
     snd (PagerView_lifetime example_env example_props_throwing [Ref (Some 1)])"

section \<open>Properties\<close>

subsection \<open>Traces and the store of a live container\<close>

lemma run_Cons_fst:
  "fst (PagerView_run env this (a # as)) =
     fst (PagerView_step env this a) @ fst (PagerView_run env (snd (PagerView_step env this a)) as)"
  by (simp split: prod.splits)

lemma run_Cons_snd:
  "snd (PagerView_run env this (a # as)) =
     snd (PagerView_run env (snd (PagerView_step env this a)) as)"
  by (simp split: prod.splits)

lemma lifetime_fst:
  "fst (PagerView_lifetime env p as) =
     fst (PagerView_constructor p) @ fst (PagerView_run env (snd (PagerView_constructor p)) as)"
  by (simp add: PagerView_lifetime_def split: prod.splits)

lemma lifetime_snd:
  "snd (PagerView_lifetime env p as) = snd (PagerView_run env (snd (PagerView_constructor p)) as)"
  by (simp add: PagerView_lifetime_def split: prod.splits)

lemmas handler_defs =
  call_if_provided_def
  PagerView_onPageScroll_def PagerView_onPageScrollStateChanged_def
  PagerView_onPageSelected_def PagerView_setPage_def
  PagerView_setPageWithoutAnimation_def PagerView_setScrollEnabled_def
  PagerView_ref_def

lemma step_keeps_store_defined:
  "store this \<noteq> None \<Longrightarrow> store (snd (PagerView_step env this a)) \<noteq> None"
  by (cases a) (auto simp: handler_defs split: option.splits)

lemma run_keeps_store_defined:
  "store this \<noteq> None \<Longrightarrow> store (snd (PagerView_run env this as)) \<noteq> None"
proof (induction as arbitrary: this)
  case Nil
  then show ?case by simp
next
  case (Cons a as)
  from Cons.prems have "store (snd (PagerView_step env this a)) \<noteq> None"
    by (rule step_keeps_store_defined)
  then have "store (snd (PagerView_run env (snd (PagerView_step env this a)) as)) \<noteq> None"
    by (rule Cons.IH)
  then show ?case unfolding run_Cons_snd .
qed

lemma constructor_snd:
  "snd (PagerView_constructor p) =
     \<lparr>props = p, isScrolling = False, pagerView = None,
      store = Some (createPagerStore (case initialPage p of Some i \<Rightarrow> i | None \<Rightarrow> 0))\<rparr>"
  by (simp add: PagerView_constructor_def Let_def)

lemma constructor_fst:
  "fst (PagerView_constructor p) =
     [Call_createPagerStore (case initialPage p of Some i \<Rightarrow> i | None \<Rightarrow> 0)]"
  by (simp add: PagerView_constructor_def Let_def)

lemma lifetime_store_defined:
  fixes as :: "('x, 'c, 'h) action list"
  shows "\<exists>s. store (snd (PagerView_lifetime env p as)) = Some s"
proof -
  have "store (snd (PagerView_constructor p) :: ('x, 'c, 'h) PagerView) \<noteq> None"
    by (simp add: constructor_snd)
  then have "store (snd (PagerView_run env (snd (PagerView_constructor p)) as)) \<noteq> None"
    by (rule run_keeps_store_defined)
  then show ?thesis
    by (simp add: lifetime_snd)
qed

lemma example_mounted_eq:
  "example_mounted =
     \<lparr>props = example_props, isScrolling = False, pagerView = Some 1,
      store = Some \<lparr>state = \<lparr>page = 0, hasNextPage = True, hasPreviousPage = False\<rparr>\<rparr>\<rparr>"
  by (simp add: example_mounted_def lifetime_snd constructor_snd PagerView_ref_def
      createPagerStore_def example_props_def)

lemma example_mounted_throwing_eq:
  "example_mounted_throwing =
     \<lparr>props = example_props_throwing, isScrolling = False, pagerView = Some 1,
      store = Some \<lparr>state = \<lparr>page = 0, hasNextPage = True, hasPreviousPage = False\<rparr>\<rparr>\<rparr>"
  by (simp add: example_mounted_throwing_def lifetime_snd constructor_snd PagerView_ref_def
      createPagerStore_def example_props_throwing_def example_props_def)

lemma onPageSelected_returns:
  assumes "store this = Some s"
    and "onPageSelected (props this) = None \<or>
      (\<exists>f. onPageSelected (props this) = Some f \<and> f e = None)"
  shows "PagerView_onPageSelected this e =
     \<lparr>calls =
        (case onPageSelected (props this) of
           Some f \<Rightarrow> [Call_onPageSelected e]
         | None \<Rightarrow> []) @
        [Store_setState (selected_update this e)],
      self = this\<lparr>store := Some (setState (selected_update this e) s)\<rparr>,
      thrown = None\<rparr>"
  using assms by (auto simp: PagerView_onPageSelected_def call_if_provided_def)

lemma onPageSelected_throws:
  assumes "onPageSelected (props this) = Some f" and "f e = Some x"
  shows "PagerView_onPageSelected this e =
     \<lparr>calls = [Call_onPageSelected e], self = this, thrown = Some x\<rparr>"
  using assms by (simp add: PagerView_onPageSelected_def call_if_provided_def)

lemma step_creates_no_store:
  "filter is_createPagerStore (fst (PagerView_step env this a)) = []"
  by (cases a) (auto simp: handler_defs split: option.splits)

lemma run_creates_no_store:
  "filter is_createPagerStore (fst (PagerView_run env this as)) = []"
proof (induction as arbitrary: this)
  case Nil
  show ?case by simp
next
  case (Cons a as)
  show ?case
    unfolding run_Cons_fst filter_append step_creates_no_store Cons.IH by simp
qed

lemma step_props:
  "props (snd (PagerView_step env this a)) = (case a of NewProps p' \<Rightarrow> p' | _ \<Rightarrow> props this)"
  by (cases a) (auto simp: handler_defs split: option.splits)

lemma step_isScrolling:
  "isScrolling (snd (PagerView_step env this a)) =
     (case a of
        PageScrollStateChanged e \<Rightarrow>
          (case onPageScrollStateChanged (props this) of
             None \<Rightarrow> pageScrollState (nativeEvent e) = Dragging
           | Some f \<Rightarrow>
               (case f e of
                  None \<Rightarrow> pageScrollState (nativeEvent e) = Dragging
                | Some x \<Rightarrow> isScrolling this))
      | _ \<Rightarrow> isScrolling this)"
  by (cases a) (auto simp: handler_defs split: option.splits)

lemma run_isScrolling:
  "isScrolling (snd (PagerView_run env this as)) =
     (case latest_scroll_state (props this) as of
        Some q \<Rightarrow> q = Dragging
      | None \<Rightarrow> isScrolling this)"
proof (induction as arbitrary: this)
  case Nil
  show ?case by simp
next
  case (Cons a as)
  show ?case
    unfolding run_Cons_snd Cons.IH step_isScrolling step_props
    by (cases a) (simp_all split: option.splits)
qed

subsection \<open>The selection event\<close>

text \<open>
  C1, amended. Let \<open>this\<close> be a container at any moment of its lifetime, \<open>p\<close> the
  position of an \<^verbatim>\<open>onPageSelected\<close> event and \<open>n\<close> the number of children. The
  handler first calls the user's \<^verbatim>\<open>onPageSelected\<close> callback, when there is one, with
  the event itself. When there is no callback, or the call returns, the handler then
  calls \<^verbatim>\<open>setState\<close> of the store exactly once, with \<open>page = p\<close>,
  \<open>hasNextPage = (p < n - 1)\<close> and \<open>hasPreviousPage = (p > 0)\<close>; the store then
  holds exactly this state and nothing else of the instance changes. In particular,
  for \<open>p = 2\<close> and \<open>n = 5\<close> the state is
  \<open>{page: 2, hasNextPage: true, hasPreviousPage: true}\<close>. When the call throws, the
  exception leaves the handler: there is no \<^verbatim>\<open>setState\<close> call and the instance is
  unchanged.
\<close>

theorem onPageSelected_forwards_then_updates_store_unless_callback_throws:
  assumes "this = snd (PagerView_lifetime env p0 acts)"
    and "position (nativeEvent e) = p"
    and "int (Children_count (children (props this))) = n"
  shows "\<exists>s. store this = Some s \<and>
    PagerView_onPageSelected this e =
      (case onPageSelected (props this) of
         None \<Rightarrow>
           \<lparr>calls =
              [Store_setState
                 \<lparr>upd_page = Some p, upd_hasNextPage = Some (p < n - 1),
                  upd_hasPreviousPage = Some (p > 0)\<rparr>],
            self =
              this\<lparr>store :=
                Some (s\<lparr>state :=
                  \<lparr>page = p, hasNextPage = (p < n - 1), hasPreviousPage = (p > 0)\<rparr>\<rparr>)\<rparr>,
            thrown = None\<rparr>
       | Some f \<Rightarrow>
           (case f e of
              None \<Rightarrow>
                \<lparr>calls =
                   [Call_onPageSelected e,
                    Store_setState
                      \<lparr>upd_page = Some p, upd_hasNextPage = Some (p < n - 1),
                       upd_hasPreviousPage = Some (p > 0)\<rparr>],
                 self =
                   this\<lparr>store :=
                     Some (s\<lparr>state :=
                       \<lparr>page = p, hasNextPage = (p < n - 1), hasPreviousPage = (p > 0)\<rparr>\<rparr>)\<rparr>,
                 thrown = None\<rparr>
            | Some x \<Rightarrow> \<lparr>calls = [Call_onPageSelected e], self = this, thrown = Some x\<rparr>))"
proof -
  from assms(1) obtain s where s: "store this = Some s"
    using lifetime_store_defined by blast
  have u: "selected_update this e =
      \<lparr>upd_page = Some p, upd_hasNextPage = Some (p < n - 1), upd_hasPreviousPage = Some (p > 0)\<rparr>"
    using assms(2,3) by (simp add: selected_update_def)
  have "PagerView_onPageSelected this e =
      (case onPageSelected (props this) of
         None \<Rightarrow>
           \<lparr>calls = [Store_setState (selected_update this e)],
            self = this\<lparr>store := Some (setState (selected_update this e) s)\<rparr>,
            thrown = None\<rparr>
       | Some f \<Rightarrow>
           (case f e of
              None \<Rightarrow>
                \<lparr>calls = [Call_onPageSelected e, Store_setState (selected_update this e)],
                 self = this\<lparr>store := Some (setState (selected_update this e) s)\<rparr>,
                 thrown = None\<rparr>
            | Some x \<Rightarrow> \<lparr>calls = [Call_onPageSelected e], self = this, thrown = Some x\<rparr>))"
    using s by (simp add: PagerView_onPageSelected_def call_if_provided_def split: option.splits)
  moreover have "setState
      \<lparr>upd_page = Some p, upd_hasNextPage = Some (p < n - 1), upd_hasPreviousPage = Some (p > 0)\<rparr> s =
      s\<lparr>state := \<lparr>page = p, hasNextPage = (p < n - 1), hasPreviousPage = (p > 0)\<rparr>\<rparr>"
    by (simp add: setState_def)
  ultimately have "PagerView_onPageSelected this e =
      (case onPageSelected (props this) of
         None \<Rightarrow>
           \<lparr>calls =
              [Store_setState
                 \<lparr>upd_page = Some p, upd_hasNextPage = Some (p < n - 1),
                  upd_hasPreviousPage = Some (p > 0)\<rparr>],
            self =
              this\<lparr>store :=
                Some (s\<lparr>state :=
                  \<lparr>page = p, hasNextPage = (p < n - 1), hasPreviousPage = (p > 0)\<rparr>\<rparr>)\<rparr>,
            thrown = None\<rparr>
       | Some f \<Rightarrow>
           (case f e of
              None \<Rightarrow>
                \<lparr>calls =
                   [Call_onPageSelected e,
                    Store_setState
                      \<lparr>upd_page = Some p, upd_hasNextPage = Some (p < n - 1),
                       upd_hasPreviousPage = Some (p > 0)\<rparr>],
                 self =
                   this\<lparr>store :=
                     Some (s\<lparr>state :=
                       \<lparr>page = p, hasNextPage = (p < n - 1), hasPreviousPage = (p > 0)\<rparr>\<rparr>)\<rparr>,
                 thrown = None\<rparr>
            | Some x \<Rightarrow> \<lparr>calls = [Call_onPageSelected e], self = this, thrown = Some x\<rparr>))"
    unfolding u by (simp only:)
  with s show ?thesis
    by blast
qed

theorem onPageSelected_forwards_then_updates_store_unless_callback_throws_witness:
  "PagerView_onPageSelected example_mounted \<lparr>nativeEvent = \<lparr>position = 2\<rparr>\<rparr> =
     \<lparr>calls =
        [Call_onPageSelected \<lparr>nativeEvent = \<lparr>position = 2\<rparr>\<rparr>,
         Store_setState
           \<lparr>upd_page = Some 2, upd_hasNextPage = Some True, upd_hasPreviousPage = Some True\<rparr>],
      self =
        example_mounted
          \<lparr>store := Some \<lparr>state = \<lparr>page = 2, hasNextPage = True, hasPreviousPage = True\<rparr>\<rparr>\<rparr>,
      thrown = None\<rparr>"
proof -
  have h1: "example_mounted = snd (PagerView_lifetime example_env example_props [Ref (Some 1)])"
    by (simp only: example_mounted_def)
  have h2: "position (nativeEvent \<lparr>nativeEvent = \<lparr>position = 2\<rparr>\<rparr>) = 2"
    by simp
  have h3: "int (Children_count (children (props example_mounted))) = 5"
    by (simp add: example_mounted_eq example_props_def Children_count_def)
  from onPageSelected_forwards_then_updates_store_unless_callback_throws [OF h1 h2 h3]
  show ?thesis
    by (simp add: example_mounted_eq example_props_def returning_def)
qed

text \<open>
  C1 as stated, for every event whatever the callback does, fails: on the container
  of five children whose callback throws, the event of position 2 is forwarded, no
  \<^verbatim>\<open>setState\<close> call follows, and the store keeps the page 0.
\<close>

theorem onPageSelected_throwing_callback_counterexample:
  "Children_count (children (props example_mounted_throwing)) = 5 \<and>
   PagerView_onPageSelected example_mounted_throwing \<lparr>nativeEvent = \<lparr>position = 2\<rparr>\<rparr> =
     \<lparr>calls = [Call_onPageSelected \<lparr>nativeEvent = \<lparr>position = 2\<rparr>\<rparr>],
      self = example_mounted_throwing, thrown = Some ''Error''\<rparr> \<and>
   store example_mounted_throwing =
     Some \<lparr>state = \<lparr>page = 0, hasNextPage = True, hasPreviousPage = False\<rparr>\<rparr>"
  by (simp add: example_mounted_throwing_eq example_props_throwing_def example_props_def
      Children_count_def PagerView_onPageSelected_def call_if_provided_def throwing_def)

text \<open>
  C8, amended. For every \<^verbatim>\<open>onPageSelected\<close> event on a container at any moment of
  its lifetime: when the \<^verbatim>\<open>onPageSelected\<close> property is absent, or is a callback whose
  call returns, the handler calls \<^verbatim>\<open>setState\<close> exactly once and leaves the store with
  the page, \<open>hasNextPage\<close> and \<open>hasPreviousPage\<close> of the event, so omitting the
  callback never suppresses the update. When the property is a callback whose call
  throws, the store is left as it was and there is no \<^verbatim>\<open>setState\<close> call.
\<close>

theorem onPageSelected_updates_store_with_or_without_returning_callback:
  assumes "this = snd (PagerView_lifetime env p0 acts)"
    and "this' = this\<lparr>props := (props this)\<lparr>onPageSelected := cb\<rparr>\<rparr>"
  shows "(cb = None \<or> (\<exists>f. cb = Some f \<and> f e = None) \<longrightarrow>
      (\<exists>s. store (self (PagerView_onPageSelected this' e)) = Some s \<and>
         getState s =
           \<lparr>page = position (nativeEvent e),
            hasNextPage =
              (position (nativeEvent e) < int (Children_count (children (props this))) - 1),
            hasPreviousPage = (position (nativeEvent e) > 0)\<rparr>) \<and>
      filter is_setState (calls (PagerView_onPageSelected this' e)) =
        [Store_setState
           \<lparr>upd_page = Some (position (nativeEvent e)),
            upd_hasNextPage =
              Some (position (nativeEvent e) < int (Children_count (children (props this))) - 1),
            upd_hasPreviousPage = Some (position (nativeEvent e) > 0)\<rparr>] \<and>
      thrown (PagerView_onPageSelected this' e) = None) \<and>
    (\<forall>f x. cb = Some f \<and> f e = Some x \<longrightarrow>
      store (self (PagerView_onPageSelected this' e)) = store this \<and>
      filter is_setState (calls (PagerView_onPageSelected this' e)) = [] \<and>
      thrown (PagerView_onPageSelected this' e) = Some x)"
proof -
  from assms(1) obtain s where "store this = Some s"
    using lifetime_store_defined by blast
  with assms(2) have s: "store this' = Some s"
    by simp
  have cb: "onPageSelected (props this') = cb"
    using assms(2) by simp
  have u: "selected_update this' e =
      \<lparr>upd_page = Some (position (nativeEvent e)),
       upd_hasNextPage =
         Some (position (nativeEvent e) < int (Children_count (children (props this))) - 1),
       upd_hasPreviousPage = Some (position (nativeEvent e) > 0)\<rparr>"
    using assms(2) by (simp add: selected_update_def)
  have returns: "?thesis" if r: "cb = None \<or> (\<exists>f. cb = Some f \<and> f e = None)"
  proof -
    have "filter is_setState
        (case onPageSelected (props this') of
           Some f \<Rightarrow> [Call_onPageSelected e :: 'c effect]
         | None \<Rightarrow> []) = []"
      by (simp split: option.splits)
    moreover have "\<not> (\<exists>f x. cb = Some f \<and> f e = Some x)"
      using r by auto
    ultimately show ?thesis
      using r unfolding onPageSelected_returns [OF s, of e, unfolded cb, OF r] u
      by (simp add: setState_def getState_def cb)
  qed
  have throws: "?thesis" if t: "cb = Some f" "f e = Some x" for f x
  proof -
    have "\<not> (cb = None \<or> (\<exists>f. cb = Some f \<and> f e = None))"
      using t by auto
    then show ?thesis
      using t s unfolding onPageSelected_throws [of this' f e x, unfolded cb, OF t]
      by (simp add: assms(2))
  qed
  show ?thesis
  proof (cases cb)
    case None
    then show ?thesis using returns by simp
  next
    case (Some f)
    then show ?thesis using returns throws by (cases "f e") auto
  qed
qed

theorem onPageSelected_updates_store_with_or_without_returning_callback_witness:
  "store (self (PagerView_onPageSelected
       (example_mounted\<lparr>props := example_props\<lparr>onPageSelected := None\<rparr>\<rparr>)
       \<lparr>nativeEvent = \<lparr>position = 4\<rparr>\<rparr>)) =
     Some \<lparr>state = \<lparr>page = 4, hasNextPage = False, hasPreviousPage = True\<rparr>\<rparr> \<and>
   calls (PagerView_onPageSelected
       (example_mounted\<lparr>props := example_props\<lparr>onPageSelected := None\<rparr>\<rparr>)
       \<lparr>nativeEvent = \<lparr>position = 4\<rparr>\<rparr>) =
     [Store_setState
        \<lparr>upd_page = Some 4, upd_hasNextPage = Some False, upd_hasPreviousPage = Some True\<rparr>] \<and>
   store (self (PagerView_onPageSelected
       (example_mounted\<lparr>props := example_props\<lparr>onPageSelected := Some returning\<rparr>\<rparr>)
       \<lparr>nativeEvent = \<lparr>position = 4\<rparr>\<rparr>)) =
     Some \<lparr>state = \<lparr>page = 4, hasNextPage = False, hasPreviousPage = True\<rparr>\<rparr>"
proof -
  have h1: "example_mounted = snd (PagerView_lifetime example_env example_props [Ref (Some 1)])"
    by (simp only: example_mounted_def)
  have h2: "example_mounted\<lparr>props := example_props\<lparr>onPageSelected := cb\<rparr>\<rparr> =
      example_mounted\<lparr>props := (props example_mounted)\<lparr>onPageSelected := cb\<rparr>\<rparr>" for cb
    by (simp add: example_mounted_eq)
  from onPageSelected_updates_store_with_or_without_returning_callback
      [OF h1 h2, of None "\<lparr>nativeEvent = \<lparr>position = 4\<rparr>\<rparr>"]
    onPageSelected_updates_store_with_or_without_returning_callback
      [OF h1 h2, of "Some returning" "\<lparr>nativeEvent = \<lparr>position = 4\<rparr>\<rparr>"]
  show ?thesis
    by (simp add: example_mounted_eq example_props_def PagerView_onPageSelected_def
        call_if_provided_def returning_def selected_update_def setState_def Children_count_def)
qed

text \<open>
  C8 as stated, with the update independent of the callback, fails: for the same
  container and the same event of position 4, the store ends at page 4 when the
  callback is omitted and stays at page 0, with no \<^verbatim>\<open>setState\<close> call, when the
  callback throws.
\<close>

theorem onPageSelected_update_depends_on_callback_counterexample:
  "store (self (PagerView_onPageSelected
       (example_mounted\<lparr>props := example_props\<lparr>onPageSelected := None\<rparr>\<rparr>)
       \<lparr>nativeEvent = \<lparr>position = 4\<rparr>\<rparr>)) =
     Some \<lparr>state = \<lparr>page = 4, hasNextPage = False, hasPreviousPage = True\<rparr>\<rparr> \<and>
   store (self (PagerView_onPageSelected
       (example_mounted\<lparr>props := example_props\<lparr>onPageSelected := Some throwing\<rparr>\<rparr>)
       \<lparr>nativeEvent = \<lparr>position = 4\<rparr>\<rparr>)) =
     Some \<lparr>state = \<lparr>page = 0, hasNextPage = True, hasPreviousPage = False\<rparr>\<rparr> \<and>
   filter is_setState (calls (PagerView_onPageSelected
       (example_mounted\<lparr>props := example_props\<lparr>onPageSelected := Some throwing\<rparr>\<rparr>)
       \<lparr>nativeEvent = \<lparr>position = 4\<rparr>\<rparr>)) = []"
  by (simp add: example_mounted_eq example_props_def PagerView_onPageSelected_def
      call_if_provided_def throwing_def selected_update_def setState_def Children_count_def)

subsection \<open>The scroll events\<close>

text \<open>
  C2. Dispatching an \<^verbatim>\<open>onPageScroll\<close> event or an \<^verbatim>\<open>onPageScrollStateChanged\<close>
  event leaves the store of the container as it was and makes no \<^verbatim>\<open>setState\<close> call,
  whether the user's callback returns or throws. Of all the actions on a container,
  only an \<^verbatim>\<open>onPageSelected\<close> event can change the store or call \<^verbatim>\<open>setState\<close>.
\<close>

theorem scroll_events_leave_store_unchanged:
  "store (self (PagerView_onPageScroll env this e)) = store this \<and>
   filter is_setState (calls (PagerView_onPageScroll env this e)) = [] \<and>
   store (self (PagerView_onPageScrollStateChanged this e')) = store this \<and>
   filter is_setState (calls (PagerView_onPageScrollStateChanged this e')) = [] \<and>
   (store (snd (PagerView_step env this a)) \<noteq> store this \<longrightarrow> (\<exists>e''. a = PageSelected e'')) \<and>
   (filter is_setState (fst (PagerView_step env this a)) \<noteq> [] \<longrightarrow> (\<exists>e''. a = PageSelected e''))"
proof -
  have scroll: "store (self (PagerView_onPageScroll env this e)) = store this \<and>
      filter is_setState (calls (PagerView_onPageScroll env this e)) = []"
    by (simp add: PagerView_onPageScroll_def call_if_provided_def split: option.splits)
  have changed: "store (self (PagerView_onPageScrollStateChanged this e')) = store this \<and>
      filter is_setState (calls (PagerView_onPageScrollStateChanged this e')) = []"
    by (simp add: PagerView_onPageScrollStateChanged_def call_if_provided_def
        split: option.splits)
  have only: "(store (snd (PagerView_step env this a)) \<noteq> store this \<or>
       filter is_setState (fst (PagerView_step env this a)) \<noteq> []) \<Longrightarrow> \<exists>e''. a = PageSelected e''"
    by (cases a) (auto simp: handler_defs split: option.splits)
  from scroll changed only show ?thesis by blast
qed

theorem scroll_events_leave_store_unchanged_witness:
  "store (self (PagerView_onPageScroll example_env example_mounted example_scroll)) =
     Some \<lparr>state = \<lparr>page = 0, hasNextPage = True, hasPreviousPage = False\<rparr>\<rparr> \<and>
   calls (PagerView_onPageScroll example_env example_mounted example_scroll) =
     [Call_onPageScroll example_scroll, Keyboard_dismiss] \<and>
   store (self (PagerView_onPageScrollStateChanged example_mounted example_dragging)) =
     Some \<lparr>state = \<lparr>page = 0, hasNextPage = True, hasPreviousPage = False\<rparr>\<rparr> \<and>
   calls (PagerView_onPageScrollStateChanged example_mounted example_dragging) =
     [Call_onPageScrollStateChanged example_dragging] \<and>
   store (self (PagerView_onPageScroll example_env example_mounted_throwing example_scroll)) =
     Some \<lparr>state = \<lparr>page = 0, hasNextPage = True, hasPreviousPage = False\<rparr>\<rparr> \<and>
   store (self (PagerView_onPageScrollStateChanged example_mounted_throwing example_dragging)) =
     Some \<lparr>state = \<lparr>page = 0, hasNextPage = True, hasPreviousPage = False\<rparr>\<rparr> \<and>
   store (snd (PagerView_step example_env example_mounted
       (PageSelected \<lparr>nativeEvent = \<lparr>position = 2\<rparr>\<rparr>))) \<noteq> store example_mounted"
  using scroll_events_leave_store_unchanged
      [of example_env example_mounted example_scroll example_dragging
          "PageSelected \<lparr>nativeEvent = \<lparr>position = 2\<rparr>\<rparr>"]
    scroll_events_leave_store_unchanged
      [of example_env example_mounted_throwing example_scroll example_dragging
          "PageSelected \<lparr>nativeEvent = \<lparr>position = 2\<rparr>\<rparr>"]
  by (simp add: example_mounted_eq example_mounted_throwing_eq example_props_def
      PagerView_onPageScroll_def PagerView_onPageScrollStateChanged_def
      PagerView_onPageSelected_def call_if_provided_def returning_def
      example_env_def setState_def selected_update_def Children_count_def)

subsection \<open>The keyboard\<close>

text \<open>
  C10, amended. The handler of \<^verbatim>\<open>onPageScroll\<close> first calls the user's callback,
  when there is one, and then calls \<^verbatim>\<open>Keyboard.dismiss\<close> once exactly when the
  platform is Android, the \<^verbatim>\<open>keyboardDismissMode\<close> property is \<^verbatim>\<open>'on-drag'\<close>, and
  the callback is absent or its call has returned. On any other platform or value of
  the property, and when the callback throws, the calls of the handler contain no
  \<^verbatim>\<open>Keyboard.dismiss\<close>.
\<close>

theorem onPageScroll_dismisses_keyboard_unless_callback_throws:
  "calls (PagerView_onPageScroll env this e) =
     (case onPageScroll (props this) of
        Some f \<Rightarrow> [Call_onPageScroll e]
      | None \<Rightarrow> []) @
     (if Platform_OS env = OS_android \<and> keyboardDismissMode (props this) = Some KD_on_drag \<and>
         thrown (PagerView_onPageScroll env this e) = None
      then [Keyboard_dismiss] else []) \<and>
   (Keyboard_dismiss \<in> set (calls (PagerView_onPageScroll env this e))) =
     (Platform_OS env = OS_android \<and> keyboardDismissMode (props this) = Some KD_on_drag \<and>
      thrown (PagerView_onPageScroll env this e) = None) \<and>
   thrown (PagerView_onPageScroll env this e) =
     (case onPageScroll (props this) of
        Some f \<Rightarrow> f e
      | None \<Rightarrow> None) \<and>
   self (PagerView_onPageScroll env this e) = this"
  by (simp add: PagerView_onPageScroll_def call_if_provided_def split: option.splits)

theorem onPageScroll_dismisses_keyboard_unless_callback_throws_witness:
  "calls (PagerView_onPageScroll example_env example_mounted example_scroll) =
     [Call_onPageScroll example_scroll, Keyboard_dismiss] \<and>
   calls (PagerView_onPageScroll (example_env\<lparr>Platform_OS := OS_ios\<rparr>) example_mounted
     example_scroll) = [Call_onPageScroll example_scroll] \<and>
   calls (PagerView_onPageScroll example_env
     (example_mounted\<lparr>props := example_props\<lparr>keyboardDismissMode := Some KD_none\<rparr>\<rparr>)
     example_scroll) = [Call_onPageScroll example_scroll] \<and>
   calls (PagerView_onPageScroll example_env
     (example_mounted\<lparr>props := example_props\<lparr>onPageScroll := None\<rparr>\<rparr>) example_scroll) =
     [Keyboard_dismiss] \<and>
   thrown (PagerView_onPageScroll example_env example_mounted example_scroll) = None"
  using onPageScroll_dismisses_keyboard_unless_callback_throws
      [of example_env example_mounted example_scroll]
    onPageScroll_dismisses_keyboard_unless_callback_throws
      [of "example_env\<lparr>Platform_OS := OS_ios\<rparr>" example_mounted example_scroll]
    onPageScroll_dismisses_keyboard_unless_callback_throws
      [of example_env
          "example_mounted\<lparr>props := example_props\<lparr>keyboardDismissMode := Some KD_none\<rparr>\<rparr>"
          example_scroll]
    onPageScroll_dismisses_keyboard_unless_callback_throws
      [of example_env "example_mounted\<lparr>props := example_props\<lparr>onPageScroll := None\<rparr>\<rparr>"
          example_scroll]
  by (simp add: example_mounted_eq example_props_def example_env_def returning_def)

text \<open>
  C10 as stated, with the keyboard dismissed exactly when the platform is Android
  and the mode is \<^verbatim>\<open>'on-drag'\<close>, fails: on Android with \<^verbatim>\<open>'on-drag'\<close> and a callback
  that throws, the handler makes the one call of the callback and no
  \<^verbatim>\<open>Keyboard.dismiss\<close>.
\<close>

theorem onPageScroll_throwing_callback_counterexample:
  "Platform_OS example_env = OS_android \<and>
   keyboardDismissMode (props example_mounted_throwing) = Some KD_on_drag \<and>
   PagerView_onPageScroll example_env example_mounted_throwing example_scroll =
     \<lparr>calls = [Call_onPageScroll example_scroll], self = example_mounted_throwing,
      thrown = Some ''Error''\<rparr>"
  by (simp add: example_env_def example_mounted_throwing_eq example_props_throwing_def
      example_props_def PagerView_onPageScroll_def call_if_provided_def throwing_def)

subsection \<open>The imperative operations\<close>

text \<open>
  C3. For every argument, each of \<^verbatim>\<open>setPage\<close>, \<^verbatim>\<open>setPageWithoutAnimation\<close> and
  \<^verbatim>\<open>setScrollEnabled\<close> invoked while the native view handle is null returns
  normally, makes no call at all (so no command reaches the native layer) and leaves
  the instance unchanged; with a handle \<open>h\<close> it issues exactly one command, its own,
  to \<open>h\<close>. The methods have no error result: the source has no \<^verbatim>\<open>throw\<close>, and
  with a null handle it calls nothing that could raise.
\<close>

theorem commands_without_handle_do_nothing:
  "(pagerView this = None \<longrightarrow>
      PagerView_setPage this i = ([], this) \<and>
      PagerView_setPageWithoutAnimation this i = ([], this) \<and>
      PagerView_setScrollEnabled this b = ([], this)) \<and>
   (\<forall>h. pagerView this = Some h \<longrightarrow>
      PagerView_setPage this i = ([Commands_setPage h i], this) \<and>
      PagerView_setPageWithoutAnimation this i = ([Commands_setPageWithoutAnimation h i], this) \<and>
      PagerView_setScrollEnabled this b = ([Commands_setScrollEnabledImperatively h b], this))"
  by (simp add: PagerView_setPage_def PagerView_setPageWithoutAnimation_def
      PagerView_setScrollEnabled_def)

theorem commands_without_handle_do_nothing_witness:
  "PagerView_setPage (snd (PagerView_constructor example_props) :: (string, nat, nat) PagerView) 3 =
     ([], snd (PagerView_constructor example_props)) \<and>
   PagerView_setPageWithoutAnimation (snd (PagerView_constructor example_props) :: (string, nat, nat) PagerView) 3 =
     ([], snd (PagerView_constructor example_props)) \<and>
   PagerView_setScrollEnabled (snd (PagerView_constructor example_props) :: (string, nat, nat) PagerView) False =
     ([], snd (PagerView_constructor example_props)) \<and>
   PagerView_setPage example_mounted 3 = ([Commands_setPage 1 3], example_mounted) \<and>
   PagerView_setPageWithoutAnimation example_mounted 3 =
     ([Commands_setPageWithoutAnimation 1 3], example_mounted) \<and>
   PagerView_setScrollEnabled example_mounted False =
     ([Commands_setScrollEnabledImperatively 1 False], example_mounted)"
  using commands_without_handle_do_nothing
      [of "snd (PagerView_constructor example_props) :: (string, nat, nat) PagerView" 3 False]
    commands_without_handle_do_nothing [of example_mounted 3 False]
  by (simp add: constructor_snd example_mounted_eq)

text \<open>
  C4. With a handle \<open>h\<close>, for every integer index \<open>i\<close> (negative, or beyond the
  number of children) and whatever the properties \<open>p\<close> of the container are (so
  whatever its children), \<^verbatim>\<open>setPage\<close> and \<^verbatim>\<open>setPageWithoutAnimation\<close> issue the
  one command with exactly the index \<open>i\<close>: the index is neither clamped nor rejected
  nor compared with the number of children.
\<close>

theorem setPage_forwards_any_index:
  assumes "pagerView this = Some h"
  shows "fst (PagerView_setPage (this\<lparr>props := p\<rparr>) i) = [Commands_setPage h i] \<and>
    fst (PagerView_setPageWithoutAnimation (this\<lparr>props := p\<rparr>) i) =
      [Commands_setPageWithoutAnimation h i] \<and>
    snd (PagerView_setPage (this\<lparr>props := p\<rparr>) i) = this\<lparr>props := p\<rparr> \<and>
    snd (PagerView_setPageWithoutAnimation (this\<lparr>props := p\<rparr>) i) = this\<lparr>props := p\<rparr>"
  using assms by (simp add: PagerView_setPage_def PagerView_setPageWithoutAnimation_def)

theorem setPage_forwards_any_index_witness:
  "fst (PagerView_setPage example_mounted (- 1)) = [Commands_setPage 1 (- 1)] \<and>
   fst (PagerView_setPageWithoutAnimation example_mounted 5) =
     [Commands_setPageWithoutAnimation 1 5] \<and>
   fst (PagerView_setPage (example_mounted\<lparr>props := example_props\<lparr>children := []\<rparr>\<rparr>) 7) =
     [Commands_setPage 1 7]"
proof -
  have h: "pagerView example_mounted = Some 1"
    by (simp add: example_mounted_eq)
  have same: "example_mounted\<lparr>props := example_props\<rparr> = example_mounted"
    by (simp add: example_mounted_eq)
  from setPage_forwards_any_index [OF h, of example_props "- 1"]
    setPage_forwards_any_index [OF h, of example_props 5]
    setPage_forwards_any_index [OF h, of "example_props\<lparr>children := []\<rparr>" 7]
  show ?thesis by (simp add: same)
qed

subsection \<open>The layout direction\<close>

text \<open>
  C5. The layout direction that \<^verbatim>\<open>render\<close> gives to the native view is the
  \<^verbatim>\<open>layoutDirection\<close> property when it is supplied and is not \<^verbatim>\<open>'locale'\<close>;
  when the property is absent or \<^verbatim>\<open>'locale'\<close>, it is \<^verbatim>\<open>'rtl'\<close> if
  \<^verbatim>\<open>I18nManager.isRTL\<close> holds and \<^verbatim>\<open>'ltr'\<close> otherwise.
\<close>

theorem deducedLayoutDirection_explicit_or_platform:
  "(\<forall>d. layoutDirection (props this) = Some d \<and> d \<noteq> LD_locale \<longrightarrow>
      PagerView_deducedLayoutDirection env this = d) \<and>
   (layoutDirection (props this) = None \<or> layoutDirection (props this) = Some LD_locale \<longrightarrow>
      PagerView_deducedLayoutDirection env this =
        (if I18nManager_isRTL env then LD_rtl else LD_ltr)) \<and>
   native_layoutDirection (PagerView_render env this) = PagerView_deducedLayoutDirection env this"
  by (auto simp: PagerView_deducedLayoutDirection_def PagerView_render_def)

theorem deducedLayoutDirection_explicit_or_platform_witness:
  "PagerView_deducedLayoutDirection example_env
     (example_mounted\<lparr>props := example_props\<lparr>layoutDirection := Some LD_rtl\<rparr>\<rparr>) = LD_rtl \<and>
   PagerView_deducedLayoutDirection (example_env\<lparr>I18nManager_isRTL := True\<rparr>)
     (example_mounted\<lparr>props := example_props\<lparr>layoutDirection := Some LD_ltr\<rparr>\<rparr>) = LD_ltr \<and>
   PagerView_deducedLayoutDirection (example_env\<lparr>I18nManager_isRTL := True\<rparr>)
     (example_mounted\<lparr>props := example_props\<lparr>layoutDirection := Some LD_locale\<rparr>\<rparr>) = LD_rtl \<and>
   PagerView_deducedLayoutDirection example_env example_mounted = LD_ltr \<and>
   native_layoutDirection (PagerView_render (example_env\<lparr>I18nManager_isRTL := True\<rparr>)
     example_mounted) = LD_rtl"
  using deducedLayoutDirection_explicit_or_platform
      [of "example_mounted\<lparr>props := example_props\<lparr>layoutDirection := Some LD_rtl\<rparr>\<rparr>" example_env]
    deducedLayoutDirection_explicit_or_platform
      [of "example_mounted\<lparr>props := example_props\<lparr>layoutDirection := Some LD_ltr\<rparr>\<rparr>"
          "example_env\<lparr>I18nManager_isRTL := True\<rparr>"]
    deducedLayoutDirection_explicit_or_platform
      [of "example_mounted\<lparr>props := example_props\<lparr>layoutDirection := Some LD_locale\<rparr>\<rparr>"
          "example_env\<lparr>I18nManager_isRTL := True\<rparr>"]
    deducedLayoutDirection_explicit_or_platform [of example_mounted example_env]
    deducedLayoutDirection_explicit_or_platform
      [of example_mounted "example_env\<lparr>I18nManager_isRTL := True\<rparr>"]
  by (simp add: example_mounted_eq example_props_def example_env_def)

subsection \<open>The dragging flag\<close>

text \<open>
  C6, amended. The handler of \<^verbatim>\<open>onPageScrollStateChanged\<close> calls the user's
  callback, when there is one, with the event itself. When there is no callback, or
  the call returns, it sets the flag \<^verbatim>\<open>isScrolling\<close> to true exactly when the scroll
  state of the event is \<^verbatim>\<open>'dragging'\<close>, and nothing else of the instance changes. When
  the call throws, the exception leaves the handler and the flag keeps its value. The
  responder-capture predicate returns the current value of the flag; it returns a
  truth value only, and its result does not depend on the store.
\<close>

theorem onPageScrollStateChanged_sets_dragging_flag_unless_callback_throws:
  "PagerView_onPageScrollStateChanged this e =
     (case onPageScrollStateChanged (props this) of
        None \<Rightarrow>
          \<lparr>calls = [],
           self = this\<lparr>isScrolling := (pageScrollState (nativeEvent e) = Dragging)\<rparr>,
           thrown = None\<rparr>
      | Some f \<Rightarrow>
          (case f e of
             None \<Rightarrow>
               \<lparr>calls = [Call_onPageScrollStateChanged e],
                self = this\<lparr>isScrolling := (pageScrollState (nativeEvent e) = Dragging)\<rparr>,
                thrown = None\<rparr>
           | Some x \<Rightarrow>
               \<lparr>calls = [Call_onPageScrollStateChanged e], self = this, thrown = Some x\<rparr>)) \<and>
   (thrown (PagerView_onPageScrollStateChanged this e) = None \<longrightarrow>
      isScrolling (self (PagerView_onPageScrollStateChanged this e)) =
        (pageScrollState (nativeEvent e) = Dragging)) \<and>
   PagerView_onMoveShouldSetResponderCapture this = isScrolling this \<and>
   PagerView_onMoveShouldSetResponderCapture (this\<lparr>store := st\<rparr>) =
     PagerView_onMoveShouldSetResponderCapture this"
  by (simp add: PagerView_onPageScrollStateChanged_def call_if_provided_def
      PagerView_onMoveShouldSetResponderCapture_def split: option.splits)

theorem onPageScrollStateChanged_sets_dragging_flag_unless_callback_throws_witness:
  "PagerView_onPageScrollStateChanged example_mounted example_dragging =
     \<lparr>calls = [Call_onPageScrollStateChanged example_dragging],
      self = example_mounted\<lparr>isScrolling := True\<rparr>, thrown = None\<rparr> \<and>
   PagerView_onPageScrollStateChanged (example_mounted\<lparr>isScrolling := True\<rparr>) example_idle =
     \<lparr>calls = [Call_onPageScrollStateChanged example_idle], self = example_mounted,
      thrown = None\<rparr> \<and>
   PagerView_onMoveShouldSetResponderCapture (example_mounted\<lparr>isScrolling := True\<rparr>) \<and>
   PagerView_onMoveShouldSetResponderCapture
     (example_mounted\<lparr>isScrolling := True, store := None\<rparr>)"
  using onPageScrollStateChanged_sets_dragging_flag_unless_callback_throws
      [of example_mounted example_dragging None]
    onPageScrollStateChanged_sets_dragging_flag_unless_callback_throws
      [of "example_mounted\<lparr>isScrolling := True\<rparr>" example_idle None]
  by (simp add: example_mounted_eq example_props_def example_dragging_def example_idle_def
      returning_def)

text \<open>
  C6 as stated, with the flag set for every event, fails: on the container whose
  callback throws, a \<^verbatim>\<open>'dragging'\<close> event is forwarded and the flag stays false.
\<close>

theorem onPageScrollStateChanged_throwing_callback_counterexample:
  "pageScrollState (nativeEvent example_dragging) = Dragging \<and>
   PagerView_onPageScrollStateChanged example_mounted_throwing example_dragging =
     \<lparr>calls = [Call_onPageScrollStateChanged example_dragging],
      self = example_mounted_throwing, thrown = Some ''Error''\<rparr> \<and>
   \<not> isScrolling (self (PagerView_onPageScrollStateChanged example_mounted_throwing
        example_dragging))"
  by (simp add: example_dragging_def example_mounted_throwing_eq example_props_throwing_def
      example_props_def PagerView_onPageScrollStateChanged_def call_if_provided_def
      throwing_def)

text \<open>
  C9, amended. The flag is false after construction, so the responder-capture
  predicate returns false before any \<^verbatim>\<open>onPageScrollStateChanged\<close> event. At every
  moment of the lifetime of a container the predicate returns true exactly when,
  among the \<^verbatim>\<open>onPageScrollStateChanged\<close> events whose handler returned (the callback
  absent, or its call returned), there is one and the latest is \<^verbatim>\<open>'dragging'\<close>. An
  event whose scroll state is \<^verbatim>\<open>'idle'\<close> or \<^verbatim>\<open>'settling'\<close> and whose handler returns
  resets the flag to false; an event whose callback throws leaves the predicate as
  it was.
\<close>

theorem responder_capture_follows_latest_handled_scroll_state:
  fixes this :: "('x, 'c, 'h) PagerView" and acts :: "('x, 'c, 'h) action list"
  shows "\<not> PagerView_onMoveShouldSetResponderCapture
        (snd (PagerView_constructor p) :: ('x, 'c, 'h) PagerView) \<and>
    PagerView_onMoveShouldSetResponderCapture (snd (PagerView_lifetime env p acts)) =
      (latest_scroll_state p acts = Some Dragging) \<and>
    ((pageScrollState (nativeEvent e) = Idle \<or> pageScrollState (nativeEvent e) = Settling) \<and>
     thrown (PagerView_onPageScrollStateChanged this e) = None \<longrightarrow>
       \<not> PagerView_onMoveShouldSetResponderCapture
           (self (PagerView_onPageScrollStateChanged this e))) \<and>
    (thrown (PagerView_onPageScrollStateChanged this e) \<noteq> None \<longrightarrow>
       PagerView_onMoveShouldSetResponderCapture
           (self (PagerView_onPageScrollStateChanged this e)) =
         PagerView_onMoveShouldSetResponderCapture this)"
proof -
  have "isScrolling (snd (PagerView_lifetime env p acts)) =
      (latest_scroll_state p acts = Some Dragging)"
    unfolding lifetime_snd run_isScrolling
    by (simp add: constructor_snd split: option.splits)
  then show ?thesis
    by (auto simp: PagerView_onMoveShouldSetResponderCapture_def constructor_snd
        PagerView_onPageScrollStateChanged_def call_if_provided_def split: option.splits)
qed

theorem responder_capture_follows_latest_handled_scroll_state_witness:
  "\<not> PagerView_onMoveShouldSetResponderCapture
       (snd (PagerView_constructor example_props) :: (string, nat, nat) PagerView) \<and>
   \<not> PagerView_onMoveShouldSetResponderCapture
       (snd (PagerView_lifetime example_env example_props [Ref (Some (1::nat))])) \<and>
   PagerView_onMoveShouldSetResponderCapture
     (snd (PagerView_lifetime example_env example_props
        [Ref (Some (1::nat)), PageScrollStateChanged example_dragging, PageScroll example_scroll])) \<and>
   \<not> PagerView_onMoveShouldSetResponderCapture
       (snd (PagerView_lifetime example_env example_props
          [Ref (Some (1::nat)), PageScrollStateChanged example_dragging, PageScroll example_scroll,
           PageScrollStateChanged example_idle, SetPage 2])) \<and>
   \<not> PagerView_onMoveShouldSetResponderCapture
       (self (PagerView_onPageScrollStateChanged (example_mounted\<lparr>isScrolling := True\<rparr>)
          example_idle)) \<and>
   PagerView_onMoveShouldSetResponderCapture
     (self (PagerView_onPageScrollStateChanged
        (example_mounted_throwing\<lparr>isScrolling := True\<rparr>) example_idle))"
proof -
  have r: "thrown (PagerView_onPageScrollStateChanged (example_mounted\<lparr>isScrolling := True\<rparr>)
      example_idle) = None"
    by (simp add: example_mounted_eq example_props_def PagerView_onPageScrollStateChanged_def
        call_if_provided_def returning_def)
  have t: "thrown (PagerView_onPageScrollStateChanged
      (example_mounted_throwing\<lparr>isScrolling := True\<rparr>) example_idle) \<noteq> None"
    by (simp add: example_mounted_throwing_eq example_props_throwing_def example_props_def
        PagerView_onPageScrollStateChanged_def call_if_provided_def throwing_def)
  from r t
    responder_capture_follows_latest_handled_scroll_state
      [of example_props example_env "[Ref (Some (1::nat))]" example_idle
          "example_mounted\<lparr>isScrolling := True\<rparr>"]
    responder_capture_follows_latest_handled_scroll_state
      [of example_props example_env
          "[Ref (Some (1::nat)), PageScrollStateChanged example_dragging, PageScroll example_scroll]"
          example_idle "example_mounted_throwing\<lparr>isScrolling := True\<rparr>"]
    responder_capture_follows_latest_handled_scroll_state
      [of example_props example_env
          "[Ref (Some (1::nat)), PageScrollStateChanged example_dragging, PageScroll example_scroll,
            PageScrollStateChanged example_idle, SetPage 2]"
          example_idle "example_mounted\<lparr>isScrolling := True\<rparr>"]
  show ?thesis
    by (simp add: example_dragging_def example_idle_def example_props_def returning_def
        PagerView_onMoveShouldSetResponderCapture_def)
qed

text \<open>
  C9 as stated, with every \<^verbatim>\<open>'idle'\<close> event resetting the flag, fails: after a
  \<^verbatim>\<open>'dragging'\<close> event whose callback returns and an \<^verbatim>\<open>'idle'\<close> event whose callback
  throws, the predicate still returns true.
\<close>

theorem responder_capture_after_throwing_idle_counterexample:
  "pageScrollState (nativeEvent example_idle) = Idle \<and>
   PagerView_onMoveShouldSetResponderCapture
     (snd (PagerView_lifetime example_env
        (example_props\<lparr>onPageScrollStateChanged := Some throwing_unless_dragging\<rparr>)
        [Ref (Some (1::nat)), PageScrollStateChanged example_dragging,
         PageScrollStateChanged example_idle]))"
  by (simp add: example_idle_def example_dragging_def example_props_def lifetime_snd
      constructor_snd run_Cons_snd handler_defs throwing_unless_dragging_def
      PagerView_onMoveShouldSetResponderCapture_def del: PagerView_run.simps(2))

subsection \<open>Construction\<close>

text \<open>
  C7. The constructor calls \<^verbatim>\<open>createPagerStore\<close> exactly once, with the
  \<^verbatim>\<open>initialPage\<close> property when it is supplied and with \<open>0\<close> when it is absent, and
  keeps the store it returns, whose page is that seed. Whatever happens to the
  container afterwards, the calls of its whole lifetime contain no other
  \<^verbatim>\<open>createPagerStore\<close>.
\<close>

theorem constructor_creates_the_only_store:
  fixes acts :: "('x, 'c, 'h) action list"
  assumes "seed = (case initialPage p of Some i \<Rightarrow> i | None \<Rightarrow> 0)"
  shows "(PagerView_constructor p :: 'h effect list \<times> ('x, 'c, 'h) PagerView) =
      ([Call_createPagerStore seed],
       \<lparr>props = p, isScrolling = False, pagerView = None,
        store = Some (createPagerStore seed)\<rparr>) \<and>
    page (getState (createPagerStore seed)) = seed \<and>
    filter is_createPagerStore (fst (PagerView_lifetime env p acts)) =
      [Call_createPagerStore seed]"
proof -
  have c: "PagerView_constructor p =
      ([Call_createPagerStore seed],
       \<lparr>props = p, isScrolling = False, pagerView = None,
        store = Some (createPagerStore seed)\<rparr>)"
    using assms by (simp add: PagerView_constructor_def Let_def)
  have "filter is_createPagerStore (fst (PagerView_lifetime env p acts)) =
      [Call_createPagerStore seed]"
    unfolding lifetime_fst filter_append run_creates_no_store
    using assms by (simp add: constructor_fst)
  with c show ?thesis
    by (simp add: getState_def createPagerStore_def)
qed

theorem constructor_creates_the_only_store_witness:
  "(PagerView_constructor example_props :: nat effect list \<times> (string, nat, nat) PagerView) =
     ([Call_createPagerStore 0],
      \<lparr>props = example_props, isScrolling = False, pagerView = None,
       store = Some \<lparr>state = \<lparr>page = 0, hasNextPage = True, hasPreviousPage = False\<rparr>\<rparr>\<rparr>) \<and>
   (PagerView_constructor (example_props\<lparr>initialPage := Some 3\<rparr>)
      :: nat effect list \<times> (string, nat, nat) PagerView) =
     ([Call_createPagerStore 3],
      \<lparr>props = example_props\<lparr>initialPage := Some 3\<rparr>, isScrolling = False, pagerView = None,
       store = Some \<lparr>state = \<lparr>page = 3, hasNextPage = True, hasPreviousPage = True\<rparr>\<rparr>\<rparr>) \<and>
   filter is_createPagerStore
     (fst (PagerView_lifetime example_env (example_props\<lparr>initialPage := Some 3\<rparr>)
        [Ref (Some (1::nat)), PageSelected \<lparr>nativeEvent = \<lparr>position = 2\<rparr>\<rparr>, SetPage 4,
         Ref None])) =
     [Call_createPagerStore 3]"
proof -
  have h0: "(0::int) = (case initialPage example_props of Some i \<Rightarrow> i | None \<Rightarrow> 0)"
    by (simp add: example_props_def)
  have h3: "(3::int) =
      (case initialPage (example_props\<lparr>initialPage := Some 3\<rparr>) of Some i \<Rightarrow> i | None \<Rightarrow> 0)"
    by simp
  note w0 = constructor_creates_the_only_store
      [OF h0, of example_env "[] :: (string, nat, nat) action list"]
  note w3 = constructor_creates_the_only_store
      [OF h3, of example_env
        "[Ref (Some (1::nat)), PageSelected \<lparr>nativeEvent = \<lparr>position = 2\<rparr>\<rparr>, SetPage 4,
          Ref None]"]
  have c0: "createPagerStore 0 =
      \<lparr>state = \<lparr>page = 0, hasNextPage = True, hasPreviousPage = False\<rparr>\<rparr>"
    by (simp add: createPagerStore_def)
  have c3: "createPagerStore 3 =
      \<lparr>state = \<lparr>page = 3, hasNextPage = True, hasPreviousPage = True\<rparr>\<rparr>"
    by (simp add: createPagerStore_def)
  from w0 w3 show ?thesis
    unfolding c0 c3 by blast
qed

end
